theory Spec2Isabelle
  imports Main
begin

section \<open>Text: the QString operations the generator uses\<close>

text \<open>
  A QString is modelled as a \<open>string\<close>: one \<open>char\<close> per code unit, for the code
  units U+0000 to U+00FF. The null QString (\<open>QString()\<close>) and the empty one are both the
  empty list; where the code tells them apart (\<open>isNull\<close>) the model uses an option.
\<close>

definition isSpace :: "char \<Rightarrow> bool" where
  \<comment> \<open>QChar::isSpace (Qt 4): U+0009..U+000D and the space separators (U+0020 and U+00A0
      below U+0100).\<close>
  "isSpace c = (let n = (of_char c :: nat) in (9 \<le> n \<and> n \<le> 13) \<or> n = 32 \<or> n = 160)"

definition digitValue :: "char \<Rightarrow> nat option" where
  \<comment> \<open>QChar::digitValue, None for -1: the ASCII digits, and the superscript digits of Latin-1.\<close>
  "digitValue c =
     (let n = (of_char c :: nat) in
      if 48 \<le> n \<and> n \<le> 57 then Some (n - 48)
      else if n = 178 then Some 2
      else if n = 179 then Some 3
      else if n = 185 then Some 1
      else None)"

definition startsWith :: "string \<Rightarrow> string \<Rightarrow> bool" where
  "startsWith s p = (take (length p) s = p)"

definition endsWith :: "string \<Rightarrow> string \<Rightarrow> bool" where
  "endsWith s p = (length p \<le> length s \<and> drop (length s - length p) s = p)"

fun contains :: "string \<Rightarrow> string \<Rightarrow> bool" where
  "contains [] p = (p = [])"
| "contains (c # cs) p = (startsWith (c # cs) p \<or> contains cs p)"

definition trimmed :: "string \<Rightarrow> string" where
  "trimmed s = rev (dropWhile isSpace (rev (dropWhile isSpace s)))"

definition chop :: "nat \<Rightarrow> string \<Rightarrow> string" where
  "chop n s = take (length s - n) s"

definition left :: "string \<Rightarrow> int \<Rightarrow> string" where
  \<comment> \<open>QString::left(n): the whole string when n is negative or not smaller than the size.\<close>
  "left s n = (if n < 0 \<or> int (length s) \<le> n then s else take (nat n) s)"

definition remove :: "int \<Rightarrow> int \<Rightarrow> string \<Rightarrow> string" where
  \<comment> \<open>QString::remove(pos, len): a negative pos counts from the end; out of range, nothing
      is removed; a len reaching the end truncates.\<close>
  "remove pos len s =
     (let size = int (length s);
          p = (if pos < 0 then pos + size else pos)
      in if p < 0 \<or> size \<le> p then s
         else if size - p \<le> len then take (nat p) s
         else if 0 < len then take (nat p) s @ drop (nat (p + len)) s
         else s)"

fun replace :: "string \<Rightarrow> string \<Rightarrow> string \<Rightarrow> string" where
  \<comment> \<open>QString::replace(before, after) for a non-empty \<open>before\<close>: every occurrence, left to
      right, without overlap; the inserted text is not scanned again.\<close>
  "replace before after [] = []"
| "replace before after (c # cs) =
     (if before \<noteq> [] \<and> startsWith (c # cs) before
      then after @ replace before after (drop (length before - 1) cs)
      else c # replace before after cs)"

definition indexOfNonSpace :: "string \<Rightarrow> int" where
  \<comment> \<open>line.indexOf(QRegExp("[^\\s]")): the index of the first non-space character, or -1.\<close>
  "indexOfNonSpace s =
     (if list_all isSpace s then - 1 else int (length (takeWhile isSpace s)))"

definition lastIndexOf :: "string \<Rightarrow> string \<Rightarrow> int" where
  \<comment> \<open>QString::lastIndexOf(str) for a non-empty \<open>str\<close>: the last position where it occurs, or -1.\<close>
  "lastIndexOf s p =
     (case filter (\<lambda>i. startsWith (drop i s) p) (rev [0..<length s]) of
        [] \<Rightarrow> - 1
      | i # _ \<Rightarrow> int i)"

fun split :: "char \<Rightarrow> string \<Rightarrow> string list" where
  \<comment> \<open>QString::split on a one-character separator, empty parts kept.\<close>
  "split sep [] = [[]]"
| "split sep (c # cs) =
     (if c = sep then [] # split sep cs
      else (case split sep cs of
              [] \<Rightarrow> [[c]]
            | l # ls \<Rightarrow> (c # l) # ls))"

fun join :: "string list \<Rightarrow> string \<Rightarrow> string" where
  "join [] sep = []"
| "join [x] sep = x"
| "join (x # y # ys) sep = x @ sep @ join (y # ys) sep"

fun digits :: "nat \<Rightarrow> string" where
  "digits n =
     (if n < 10 then [char_of (48 + n)]
      else digits (n div 10) @ [char_of (48 + n mod 10)])"

definition number :: "int \<Rightarrow> string" where
  \<comment> \<open>QString::number(int), base 10.\<close>
  "number i = (if i < 0 then CHR ''-'' # digits (nat (- i)) else digits (nat i))"

subsection \<open>C++ int\<close>

definition int32 :: "int \<Rightarrow> int" where
  \<comment> \<open>A C++ \<open>int\<close> holds the values from -2147483648 to 2147483647. \<open>int32 x\<close> is what
      an \<open>int\<close> holds after an addition whose exact result is \<open>x\<close>: the result itself in
      that range, and the two's-complement wrap-around of the compiled code outside it
      (where C++ leaves the behaviour undefined).\<close>
  "int32 x = (x + 2147483648) mod 4294967296 - 2147483648"

subsection \<open>QString::arg\<close>

text \<open>
  \<open>arg\<close> replaces the place markers \<open>%n\<close> and \<open>%Ln\<close> (one or two digits) that carry the
  lowest number in the string; a string without a marker is returned as it is.
  \<open>escapeAt\<close> reads a marker at the head of the text: its number and its length.
\<close>

definition escapeAt :: "string \<Rightarrow> (nat \<times> nat) option" where
  "escapeAt s =
     (case s of
        [] \<Rightarrow> None
      | p # r \<Rightarrow>
          if p \<noteq> CHR ''%'' then None
          else
            (let l = (case r of [] \<Rightarrow> 0 | x # _ \<Rightarrow> if x = CHR ''L'' then 1 else (0::nat));
                 r' = drop l r
             in case r' of
                  [] \<Rightarrow> None
                | d # r'' \<Rightarrow>
                    (case digitValue d of
                       None \<Rightarrow> None
                     | Some v \<Rightarrow>
                         (case r'' of
                            [] \<Rightarrow> Some (v, 2 + l)
                          | e # _ \<Rightarrow>
                              (case digitValue e of
                                 None \<Rightarrow> Some (v, 2 + l)
                               | Some w \<Rightarrow> Some (10 * v + w, 3 + l))))))"

fun minEscape :: "string \<Rightarrow> nat option" where
  "minEscape [] = None"
| "minEscape (c # cs) =
     (case escapeAt (c # cs) of
        None \<Rightarrow> minEscape cs
      | Some (n, len) \<Rightarrow>
          (case minEscape (drop (len - 1) cs) of
             None \<Rightarrow> Some n
           | Some m \<Rightarrow> Some (min n m)))"

fun replaceEscapes :: "nat \<Rightarrow> string \<Rightarrow> string \<Rightarrow> string" where
  "replaceEscapes m a [] = []"
| "replaceEscapes m a (c # cs) =
     (case escapeAt (c # cs) of
        None \<Rightarrow> c # replaceEscapes m a cs
      | Some (n, len) \<Rightarrow>
          if n = m then a @ replaceEscapes m a (drop (len - 1) cs)
          else take len (c # cs) @ replaceEscapes m a (drop (len - 1) cs))"

definition arg :: "string \<Rightarrow> string \<Rightarrow> string" where
  "arg s a = (case minEscape s of None \<Rightarrow> s | Some m \<Rightarrow> replaceEscapes m a s)"


section \<open>The type model the generator reads\<close>

text \<open>
  The type model (type entries, type instantiations, classes, functions, arguments) is
  declared by the API Extractor library. The generator only reads it, through the
  accessors below, which are the fields of the records. Objects the code compares by
  address carry that address in a field.
\<close>

datatype CodeGenerationFlag = GenerateTargetLang | GenerateCpp | GenerateForSubclass

text \<open>
  Modelled from the spec: the code-generation flags of a type entry are a set of flags,
  and \<open>codeGeneration() & TypeEntry::GenerateTargetLang\<close> is membership in it.
\<close>

record TypeEntry =
  entryAddress :: nat
  name :: string
  qualifiedCppName :: string
  defaultConstructor :: string
  hasDefaultConstructor :: bool
  codeGeneration :: "CodeGenerationFlag set"
  generateCode :: bool
  isTypeSystemType :: bool
  isVoid :: bool
  isPrimitive :: bool
  isCppPrimitive :: bool
  entryIsEnum :: bool
  entryIsFlags :: bool
  isComplex :: bool
  isGenericClass :: bool

datatype TypeUsagePattern =
    InvalidPattern | PrimitivePattern | FlagsPattern | EnumPattern | ValuePattern
  | StringPattern | CharPattern | ObjectPattern | QObjectPattern | ValuePointerPattern
  | NativePointerPattern | ContainerPattern | VariantPattern | VarargsPattern | ArrayPattern

datatype AbstractMetaType = AbstractMetaType
  (typeEntry: TypeEntry)
  (typeUsagePattern: TypeUsagePattern)
  (indirections: int)
  (isReference: bool)
  (isConstant: bool)
  (originalTypeDescription: string)
  (arrayElementType: "AbstractMetaType option")
  (originalTemplateType: "AbstractMetaType option")

text \<open>
  Modelled from the spec: the category queries of a type instantiation are mutually
  exclusive; each one tests the usage pattern of the instantiation.
\<close>

definition isContainer :: "AbstractMetaType \<Rightarrow> bool" where
  "isContainer t = (typeUsagePattern t = ContainerPattern)"

definition isNativePointer :: "AbstractMetaType \<Rightarrow> bool" where
  "isNativePointer t = (typeUsagePattern t = NativePointerPattern)"

definition isValuePointer :: "AbstractMetaType \<Rightarrow> bool" where
  "isValuePointer t = (typeUsagePattern t = ValuePointerPattern)"

definition isObject :: "AbstractMetaType \<Rightarrow> bool" where
  "isObject t = (typeUsagePattern t = ObjectPattern)"

definition isQObject :: "AbstractMetaType \<Rightarrow> bool" where
  "isQObject t = (typeUsagePattern t = QObjectPattern)"

definition isArray :: "AbstractMetaType \<Rightarrow> bool" where
  "isArray t = (typeUsagePattern t = ArrayPattern)"

definition isEnum :: "AbstractMetaType \<Rightarrow> bool" where
  "isEnum t = (typeUsagePattern t = EnumPattern)"

definition isFlags :: "AbstractMetaType \<Rightarrow> bool" where
  "isFlags t = (typeUsagePattern t = FlagsPattern)"

definition setConstant :: "bool \<Rightarrow> AbstractMetaType \<Rightarrow> AbstractMetaType" where
  "setConstant b t =
     AbstractMetaType (typeEntry t) (typeUsagePattern t) (indirections t) (isReference t) b
       (originalTypeDescription t) (arrayElementType t) (originalTemplateType t)"

definition setReference :: "bool \<Rightarrow> AbstractMetaType \<Rightarrow> AbstractMetaType" where
  "setReference b t =
     AbstractMetaType (typeEntry t) (typeUsagePattern t) (indirections t) b (isConstant t)
       (originalTypeDescription t) (arrayElementType t) (originalTemplateType t)"

record AbstractMetaArgument =
  argType :: AbstractMetaType
  argName :: string
  argumentIndex :: int
  defaultValueExpression :: string
  originalDefaultValueExpression :: string

record AbstractMetaFunction =
  arguments :: "AbstractMetaArgument list"
  funcType :: "AbstractMetaType option"
  originalName :: string
  isUserAdded :: bool
  isPrivate :: bool
  isCopyConstructor :: bool

record AbstractMetaClass =
  className :: string
  classQualifiedCppName :: string
  classTypeEntry :: TypeEntry
  package :: string
  constructors :: "AbstractMetaFunction list"

fun findClass :: "AbstractMetaClass list \<Rightarrow> TypeEntry \<Rightarrow> AbstractMetaClass option" where
  \<comment> \<open>Modelled from the spec: "look up the corresponding ClassEntity"; the first class of the
      list whose type entry is the given one.\<close>
  "findClass [] t = None"
| "findClass (c # cs) t =
     (if entryAddress (classTypeEntry c) = entryAddress t then Some c else findClass cs t)"

definition cppSignature :: "AbstractMetaType \<Rightarrow> string" where
  \<comment> \<open>Modelled from the spec: the canonical signature, "existing const/pointer/reference
      decorations included, fully qualified". AbstractMetaType::cppSignature belongs to the
      type model; the generator's functions below take the renderer as a parameter, and this
      one instantiates it in the examples.\<close>
  "cppSignature t =
     (if isConstant t then ''const '' else [])
     @ qualifiedCppName (typeEntry t)
     @ replicate (nat (indirections t)) CHR ''*''
     @ (if isReference t then ''&'' else [])"

section \<open>Generator::minimalConstructor\<close>

definition isObjectType :: "AbstractMetaType \<Rightarrow> bool" where
  "isObjectType metaType = (isObject metaType \<or> isQObject metaType)"

definition isPointer :: "AbstractMetaType \<Rightarrow> bool" where
  "isPointer t = (indirections t > 0 \<or> isNativePointer t \<or> isValuePointer t)"

definition minimalConstructor_entry :: "TypeEntry option \<Rightarrow> string" where
  \<comment> \<open>minimalConstructor(const TypeEntry*)\<close>
  "minimalConstructor_entry te =
     (case te of
        None \<Rightarrow> []
      | Some t \<Rightarrow>
          if isCppPrimitive t then arg ''((%1)0)'' (qualifiedCppName t)
          else if entryIsEnum t \<or> entryIsFlags t then arg ''((::%1)0)'' (qualifiedCppName t)
          else if isPrimitive t then
            (let ctor = defaultConstructor t
             in if ctor = [] then arg ''::%1()'' (qualifiedCppName t) else ctor)
          else [])"

definition isCandidate :: "AbstractMetaFunction \<Rightarrow> bool" where
  \<comment> \<open>the negation of the test that makes both constructor loops skip a constructor\<close>
  "isCandidate ctor = (\<not> (isUserAdded ctor \<or> isPrivate ctor \<or> isCopyConstructor ctor))"

fun maxArgsLoop :: "AbstractMetaFunction list \<Rightarrow> nat \<Rightarrow> nat" where
  \<comment> \<open>the first loop over the constructors: the largest argument count, or 0 as soon as a
      constructor without arguments is met\<close>
  "maxArgsLoop [] maxArgs = maxArgs"
| "maxArgsLoop (ctor # rest) maxArgs =
     (if \<not> isCandidate ctor then maxArgsLoop rest maxArgs
      else
        (let numArgs = length (arguments ctor)
         in if numArgs = 0 then 0
            else maxArgsLoop rest (if numArgs > maxArgs then numArgs else maxArgs)))"

text \<open>
  The argument loops. A result \<open>None\<close> means that a nested call did not return (see the
  fuel of \<open>minimalConstructor_type\<close>); the list is the content of \<open>args\<close> when the loop
  is left.
\<close>

fun firstPassArgs ::
  "(AbstractMetaType \<Rightarrow> string option) \<Rightarrow> AbstractMetaClass \<Rightarrow> AbstractMetaArgument list
    \<Rightarrow> string list \<Rightarrow> string list option" where
  "firstPassArgs mc metaClass [] args = Some args"
| "firstPassArgs mc metaClass (a # rest) args =
     (let type = typeEntry (argType a)
      in if entryAddress type = entryAddress (classTypeEntry metaClass) then Some []
         else if originalDefaultValueExpression a \<noteq> [] then
           (if defaultValueExpression a \<noteq> []
               \<and> defaultValueExpression a \<noteq> originalDefaultValueExpression a
            then Some (args @ [defaultValueExpression a])
            else Some args)
         else if isCppPrimitive type \<or> entryIsEnum type \<or> isPointer (argType a) then
           (case mc (argType a) of
              None \<Rightarrow> None
            | Some argValue \<Rightarrow>
                if argValue = [] then Some []
                else firstPassArgs mc metaClass rest (args @ [argValue]))
         else Some [])"

fun secondPassArgs ::
  "(AbstractMetaType \<Rightarrow> string option) \<Rightarrow> AbstractMetaClass \<Rightarrow> AbstractMetaArgument list
    \<Rightarrow> string list \<Rightarrow> string list option" where
  "secondPassArgs mc metaClass [] args = Some args"
| "secondPassArgs mc metaClass (a # rest) args =
     (if entryAddress (typeEntry (argType a)) = entryAddress (classTypeEntry metaClass)
      then Some []
      else
        (case mc (argType a) of
           None \<Rightarrow> None
         | Some argValue \<Rightarrow>
             if argValue = [] then Some []
             else secondPassArgs mc metaClass rest (args @ [argValue])))"


text \<open>
  The body of the loop over the constructors with exactly \<open>i\<close> arguments: \<open>Inl\<close> is the
  expression the function returns from inside the loop, \<open>Inr\<close> the list \<open>candidates\<close>
  after the loop.
\<close>

fun firstPassCtors ::
  "(AbstractMetaType \<Rightarrow> string option) \<Rightarrow> AbstractMetaClass \<Rightarrow> nat \<Rightarrow> AbstractMetaFunction list
    \<Rightarrow> AbstractMetaFunction list \<Rightarrow> (string + AbstractMetaFunction list) option" where
  "firstPassCtors mc metaClass i [] candidates = Some (Inr candidates)"
| "firstPassCtors mc metaClass i (ctor # rest) candidates =
     (if \<not> isCandidate ctor then firstPassCtors mc metaClass i rest candidates
      else if length (arguments ctor) \<noteq> i then firstPassCtors mc metaClass i rest candidates
      else
        (case firstPassArgs mc metaClass (arguments ctor) [] of
           None \<Rightarrow> None
         | Some args \<Rightarrow>
             if args \<noteq> []
             then Some (Inl (arg (arg ''::%1(%2)'' (classQualifiedCppName metaClass))
                                 (join args '', '')))
             else firstPassCtors mc metaClass i rest (candidates @ [ctor])))"

fun firstPass ::
  "(AbstractMetaType \<Rightarrow> string option) \<Rightarrow> AbstractMetaClass \<Rightarrow> AbstractMetaFunction list
    \<Rightarrow> nat list \<Rightarrow> AbstractMetaFunction list \<Rightarrow> (string + AbstractMetaFunction list) option" where
  \<comment> \<open>the loop \<open>for (int i = 1; i <= maxArgs; ++i)\<close>, over the values of \<open>i\<close>\<close>
  "firstPass mc metaClass ctors [] candidates = Some (Inr candidates)"
| "firstPass mc metaClass ctors (i # is) candidates =
     (case firstPassCtors mc metaClass i ctors candidates of
        None \<Rightarrow> None
      | Some (Inl r) \<Rightarrow> Some (Inl r)
      | Some (Inr candidates') \<Rightarrow> firstPass mc metaClass ctors is candidates')"

fun secondPass ::
  "(AbstractMetaType \<Rightarrow> string option) \<Rightarrow> AbstractMetaClass \<Rightarrow> AbstractMetaFunction list
    \<Rightarrow> string option" where
  "secondPass mc metaClass [] = Some []"
| "secondPass mc metaClass (ctor # rest) =
     (case secondPassArgs mc metaClass (arguments ctor) [] of
        None \<Rightarrow> None
      | Some args \<Rightarrow>
          if args \<noteq> []
          then Some (arg (arg ''::%1(%2)'' (classQualifiedCppName metaClass)) (join args '', ''))
          else secondPass mc metaClass rest)"

text \<open>
  The three overloads call each other through the class graph, which may be cyclic (a
  constructor of A taking a B whose constructor takes an A): the C++ recursion need not
  end. \<open>fuel\<close> bounds the number of nested class look-ups; \<open>None\<close> is a call that did not
  return within it, \<open>Some []\<close> the empty QString of a failed synthesis.
  \<open>sig\<close> is \<open>AbstractMetaType::cppSignature\<close>, \<open>classes\<close> the result of \<open>classes()\<close>.
\<close>

fun minimalConstructor_type ::
  "nat \<Rightarrow> (AbstractMetaType \<Rightarrow> string) \<Rightarrow> AbstractMetaClass list \<Rightarrow> AbstractMetaType option
    \<Rightarrow> string option"
and minimalConstructor_class ::
  "nat \<Rightarrow> (AbstractMetaType \<Rightarrow> string) \<Rightarrow> AbstractMetaClass list \<Rightarrow> AbstractMetaClass option
    \<Rightarrow> string option" where
  "minimalConstructor_type fuel sig classes None = Some []"
| "minimalConstructor_type fuel sig classes (Some type) =
     (if isReference type \<and> isObjectType type then Some []
      else if isContainer type then
        (let ctor = sig type
         in if endsWith ctor ''*'' then Some ''0''
            else
              (let ctor1 = (if startsWith ctor ''const '' then remove 0 6 ctor else ctor);
                   ctor2 = (if endsWith ctor1 ''&'' then trimmed (chop 1 ctor1) else ctor1)
               in Some (arg ''::%1()'' ctor2)))
      else if isNativePointer type then
        Some (arg ''((%1*)0)'' (qualifiedCppName (typeEntry type)))
      else if isPointer type then
        Some (arg ''((::%1*)0)'' (qualifiedCppName (typeEntry type)))
      else if isComplex (typeEntry type) then
        (let cType = typeEntry type;
             ctor = defaultConstructor cType
         in if ctor = [] then
              (case fuel of
                 0 \<Rightarrow> None
               | Suc n \<Rightarrow> minimalConstructor_class n sig classes (findClass classes cType))
            else Some ctor)
      else Some (minimalConstructor_entry (Some (typeEntry type))))"
| "minimalConstructor_class fuel sig classes None = Some []"
| "minimalConstructor_class fuel sig classes (Some metaClass) =
     (let cType = classTypeEntry metaClass
      in if hasDefaultConstructor cType then Some (defaultConstructor cType)
         else
           (let ctors = constructors metaClass;
                maxArgs = maxArgsLoop ctors 0
            in if maxArgs = 0 then Some (arg ''::%1()'' (classQualifiedCppName metaClass))
               else
                 (case firstPass (\<lambda>t. minimalConstructor_type fuel sig classes (Some t))
                         metaClass ctors [1..<Suc maxArgs] [] of
                    None \<Rightarrow> None
                  | Some (Inl r) \<Rightarrow> Some r
                  | Some (Inr candidates) \<Rightarrow>
                      secondPass (\<lambda>t. minimalConstructor_type fuel sig classes (Some t))
                        metaClass candidates)))"


section \<open>Generator::translateType\<close>

datatype Option =
    EnumAsInts | OriginalName | ExcludeConst | ExcludeReference
  | SkipRemovedArguments | SkipDefaultValues

text \<open>
  Modelled from the spec: the options are independently combinable flags (the bit values
  are those of the enumeration in the generator's header); \<open>options & X\<close> is membership
  of \<open>X\<close> in the set.
\<close>

definition constLen :: int where
  "constLen = 5"

definition resolveTemplateType ::
  "AbstractMetaClass option \<Rightarrow> AbstractMetaType option \<Rightarrow> AbstractMetaType option" where
  \<comment> \<open>the first statement of translateType: inside a generic class, a type that records its
      original template type is replaced by it\<close>
  "resolveTemplateType context cType =
     (case context of
        None \<Rightarrow> cType
      | Some ctx \<Rightarrow>
          (case cType of
             None \<Rightarrow> cType
           | Some t \<Rightarrow>
               if isGenericClass (classTypeEntry ctx) \<and> originalTemplateType t \<noteq> None
               then originalTemplateType t
               else cType))"

definition originalNameText :: "Option set \<Rightarrow> AbstractMetaType \<Rightarrow> string" where
  \<comment> \<open>the branch of translateType for the option OriginalName\<close>
  "originalNameText options t =
     (let s = trimmed (originalTypeDescription t);
          s1 = (if ExcludeReference \<in> options \<and> endsWith s ''&''
                then left s (int (length s) - 1) else s)
      in if ExcludeConst \<in> options then
           (let index = lastIndexOf s1 ''const''
            in if index \<ge> int (length s1) - (constLen + 1) then remove index constLen s1 else s1)
         else s1)"

definition excludedText :: "(AbstractMetaType \<Rightarrow> string) \<Rightarrow> Option set \<Rightarrow> AbstractMetaType \<Rightarrow> string" where
  \<comment> \<open>the branch of translateType for ExcludeConst or ExcludeReference without OriginalName\<close>
  "excludedText sig options t =
     (let copyType = t;
          copyType1 = (if ExcludeConst \<in> options then setConstant False copyType else copyType);
          copyType2 = (if ExcludeReference \<in> options then setReference False copyType1
                       else copyType1);
          s = sig copyType2
      in if \<not> isVoid (typeEntry copyType2) \<and> \<not> isCppPrimitive (typeEntry copyType2)
         then ''::'' @ s else s)"

function translateType ::
  "(AbstractMetaType \<Rightarrow> string) \<Rightarrow> AbstractMetaType option \<Rightarrow> AbstractMetaClass option
    \<Rightarrow> Option set \<Rightarrow> string" where
  "translateType sig cType context options =
     (case resolveTemplateType context cType of
        None \<Rightarrow> ''void''
      | Some t \<Rightarrow>
          if isArray t then translateType sig (arrayElementType t) context options @ ''[]''
          else if EnumAsInts \<in> options \<and> (isEnum t \<or> isFlags t) then ''int''
          else if OriginalName \<in> options then originalNameText options t
          else if ExcludeConst \<in> options \<or> ExcludeReference \<in> options
          then excludedText sig options t
          else sig t)"
  by pat_completeness auto
termination
proof (relation "measure (\<lambda>(sig, cType, context, options).
                   case cType of None \<Rightarrow> 0 | Some t \<Rightarrow> Suc (size t))")
  fix sig :: "AbstractMetaType \<Rightarrow> string" and cType ctx and options :: "Option set" and t
  assume r: "resolveTemplateType ctx cType = Some t"
  have sub: "size u < size v" if "arrayElementType v = Some u \<or> originalTemplateType v = Some u"
    for u v using that by (cases v) auto
  obtain c where c: "cType = Some c" and tc: "t = c \<or> originalTemplateType c = Some t"
    using r by (auto simp: resolveTemplateType_def split: option.splits if_splits)
  have "size t \<le> size c"
    using tc sub [of c t] by auto
  moreover have "(case arrayElementType t of None \<Rightarrow> 0 | Some u \<Rightarrow> Suc (size u)) \<le> size t"
    using sub [of t] by (auto split: option.splits simp: Suc_le_eq)
  ultimately show "((sig, arrayElementType t, ctx, options), (sig, cType, ctx, options))
      \<in> measure (\<lambda>(sig, cType, context, options).
            case cType of None \<Rightarrow> 0 | Some t \<Rightarrow> Suc (size t))"
    using c by simp
qed simp

declare translateType.simps [simp del]

section \<open>Generator::replaceTemplateVariables\<close>

text \<open>
  \<open>ownerClass\<close> is the back pointer \<open>func->ownerClass()\<close>; \<open>writeArgumentNames\<close> and
  \<open>writeFunctionArguments\<close> are the hooks of the concrete generator, as the text they
  write to the stream. \<open>argumentIndex()\<close> is a C++ \<open>int\<close>, and so is the sum
  \<open>arg->argumentIndex() + 1\<close>.
\<close>

definition replaceTemplateVariables ::
  "(AbstractMetaType \<Rightarrow> string) \<Rightarrow> (AbstractMetaFunction \<Rightarrow> AbstractMetaClass option)
    \<Rightarrow> (AbstractMetaFunction \<Rightarrow> Option set \<Rightarrow> string)
    \<Rightarrow> (AbstractMetaFunction \<Rightarrow> Option set \<Rightarrow> string)
    \<Rightarrow> string \<Rightarrow> AbstractMetaFunction \<Rightarrow> string" where
  "replaceTemplateVariables sig ownerClass writeArgumentNames writeFunctionArguments code func =
     (let cpp_class = ownerClass func;
          code1 = (case cpp_class of
                     None \<Rightarrow> code
                   | Some c \<Rightarrow> replace ''%TYPE'' (className c) code);
          code2 = foldl (\<lambda>acc a. replace (''%'' @ number (int32 (argumentIndex a + 1)))
                                         (argName a) acc)
                    code1 (arguments func);
          code3 = replace ''%RETURN_TYPE'' (translateType sig (funcType func) cpp_class {}) code2;
          code4 = replace ''%FUNCTION_NAME'' (originalName func) code3;
          code5 = (if contains code4 ''%ARGUMENT_NAMES''
                   then replace ''%ARGUMENT_NAMES''
                          (writeArgumentNames func {SkipRemovedArguments}) code4
                   else code4)
      in if contains code5 ''%ARGUMENTS''
         then replace ''%ARGUMENTS''
                (writeFunctionArguments func {SkipDefaultValues, SkipRemovedArguments}) code5
         else code5)"


section \<open>formatCode\<close>

definition newline :: char where
  "newline = CHR 0x0A"

definition at :: "string \<Rightarrow> int \<Rightarrow> char" where
  \<comment> \<open>reading \<open>line[i]\<close>: past the last character it is the null character\<close>
  "at line i = (if 0 \<le> i \<and> i < int (length line) then line ! nat i else CHR 0x00)"

definition endChar :: "string \<Rightarrow> char" where
  \<comment> \<open>\<open>*line.end()\<close>: the iterator \<open>end()\<close> points one past the last character, at the
      terminating null of the string's buffer\<close>
  "endChar line = CHR 0x00"

fun spacesToRemoveLoop :: "string list \<Rightarrow> int" where
  \<comment> \<open>the first loop: the index of the first non-space character of the first line that is
      not blank; 0 when there is none\<close>
  "spacesToRemoveLoop [] = 0"
| "spacesToRemoveLoop (line # rest) =
     (if trimmed line \<noteq> [] then
        (let spacesToRemove = indexOfNonSpace line
         in if spacesToRemove = - 1 then 0 else spacesToRemove)
      else spacesToRemoveLoop rest)"

definition emptyLineMatch :: "string \<Rightarrow> bool" where
  \<comment> \<open>\<open>emptyLine.exactMatch(line)\<close> for the pattern \<open>\\s*[\\r]?[\\n]?\\s*\<close>: as the class
      \<open>\\s\<close> holds the carriage return and the line feed, the pattern matches exactly the
      lines made of space characters\<close>
  "emptyLineMatch line = list_all isSpace line"

function chopTrailing :: "string \<Rightarrow> string" where
  \<comment> \<open>\<open>while (line.end()->isSpace()) line.chop(1);\<close>\<close>
  "chopTrailing line = (if isSpace (endChar line) then chopTrailing (chop 1 line) else line)"
  by pat_completeness auto
termination
  by (relation "{}") (simp_all add: endChar_def isSpace_def)

function limitLoop :: "int \<Rightarrow> int \<Rightarrow> string \<Rightarrow> int \<Rightarrow> int" where
  \<comment> \<open>\<open>for (int i = 0; i < spacesToRemove; ++i) { if (!line[i].isSpace()) break; limit++; }\<close>\<close>
  "limitLoop i spacesToRemove line limit =
     (if i < spacesToRemove then
        (if \<not> isSpace (at line i) then limit
         else limitLoop (i + 1) spacesToRemove line (limit + 1))
      else limit)"
  by pat_completeness auto
termination
  by (relation "measure (\<lambda>(i, spacesToRemove, line, limit). nat (spacesToRemove - i))") simp_all

definition formatLine :: "string \<Rightarrow> int \<Rightarrow> string \<Rightarrow> string" where
  \<comment> \<open>the body of the second loop: what one line of the input writes to the stream;
      \<open>indentor\<close> is the text that \<open>s << indentor\<close> writes\<close>
  "formatLine indentor spacesToRemove line =
     (if line \<noteq> [] \<and> \<not> emptyLineMatch line then
        (let line1 = chopTrailing line;
             limit = limitLoop 0 spacesToRemove line1 0
         in indentor @ remove 0 limit line1)
      else [])
     @ [newline]"

definition formatCode :: "string \<Rightarrow> string \<Rightarrow> string" where
  \<comment> \<open>the text written to the stream\<close>
  "formatCode indentor code =
     (let lst = split newline code;
          spacesToRemove = spacesToRemoveLoop lst
      in concat (map (formatLine indentor spacesToRemove) lst))"

section \<open>The generation driver\<close>

record GeneratorPrivate =
  outDir :: string
  licenseComment :: string
  packageName :: string
  numGenerated :: int
  numGeneratedWritten :: int

definition Generator :: GeneratorPrivate where
  \<comment> \<open>the constructor: both counters 0, the strings default-constructed\<close>
  "Generator =
     \<lparr>outDir = [], licenseComment = [], packageName = [],
      numGenerated = 0, numGeneratedWritten = 0\<rparr>"

definition setOutputDirectory :: "string \<Rightarrow> GeneratorPrivate \<Rightarrow> GeneratorPrivate" where
  "setOutputDirectory dir d = d\<lparr>outDir := dir\<rparr>"

definition setLicenseComment :: "string \<Rightarrow> GeneratorPrivate \<Rightarrow> GeneratorPrivate" where
  "setLicenseComment license d = d\<lparr>licenseComment := license\<rparr>"

fun findTypeSystemEntry :: "TypeEntry list \<Rightarrow> TypeEntry option" where
  \<comment> \<open>the inner loop of setup\<close>
  "findTypeSystemEntry [] = None"
| "findTypeSystemEntry (entry # rest) =
     (if isTypeSystemType entry \<and> generateCode entry then Some entry
      else findTypeSystemEntry rest)"

fun findPackageEntry :: "TypeEntry list list \<Rightarrow> TypeEntry option" where
  \<comment> \<open>the outer loop of setup, over \<open>allEntries.values()\<close>\<close>
  "findPackageEntry [] = None"
| "findPackageEntry (entryList # rest) =
     (case findTypeSystemEntry entryList of
        Some entry \<Rightarrow> Some entry
      | None \<Rightarrow> findPackageEntry rest)"

definition setup_generator ::
  "TypeEntry list list \<Rightarrow> bool \<Rightarrow> GeneratorPrivate \<Rightarrow> bool \<times> GeneratorPrivate" where
  \<comment> \<open>Generator::setup; \<open>doSetup\<close> is the result of the hook \<open>doSetup(args)\<close>; without an
      entry the code only logs a warning\<close>
  "setup_generator allEntries doSetup d =
     (case findPackageEntry allEntries of
        Some entryFound \<Rightarrow> (doSetup, d\<lparr>packageName := name entryFound\<rparr>)
      | None \<Rightarrow> (doSetup, d))"

definition subDirectoryForPackage :: "char \<Rightarrow> GeneratorPrivate \<Rightarrow> string \<Rightarrow> string" where
  \<comment> \<open>\<open>separator\<close> is \<open>QDir::separator()\<close>\<close>
  "subDirectoryForPackage separator d pkg =
     (let packageName1 = (if pkg = [] then packageName d else pkg)
      in replace ''.'' [separator] packageName1)"

definition subDirectoryForClass :: "char \<Rightarrow> GeneratorPrivate \<Rightarrow> AbstractMetaClass \<Rightarrow> string" where
  "subDirectoryForClass separator d clazz = subDirectoryForPackage separator d (package clazz)"

definition shouldGenerate :: "AbstractMetaClass \<Rightarrow> bool" where
  "shouldGenerate metaClass = (GenerateTargetLang \<in> codeGeneration (classTypeEntry metaClass))"

text \<open>
  The hooks of the concrete generator and the file sink. \<open>fileOutDone fs path content\<close> is
  \<open>FileOut::done()\<close> for the file at \<open>path\<close> after \<open>generateClass\<close> wrote \<open>content\<close> to
  its stream: whether the file changed, and the file system after it. The counters are
  C++ \<open>int\<close>s, and \<open>++\<close> on them is an \<open>int\<close> addition.
\<close>

record 'fs GeneratorHooks =
  hookShouldGenerate :: "AbstractMetaClass \<Rightarrow> bool"
  fileNameForClass :: "AbstractMetaClass \<Rightarrow> string option"
  generateClass :: "AbstractMetaClass \<Rightarrow> string"
  fileOutDone :: "'fs \<Rightarrow> string \<Rightarrow> string \<Rightarrow> bool \<times> 'fs"
  finishGeneration :: "'fs \<Rightarrow> 'fs"

fun generateLoop ::
  "char \<Rightarrow> 'fs GeneratorHooks \<Rightarrow> AbstractMetaClass list \<Rightarrow> GeneratorPrivate \<times> 'fs
    \<Rightarrow> GeneratorPrivate \<times> 'fs" where
  "generateLoop separator h [] (d, fs) = (d, fs)"
| "generateLoop separator h (cls # rest) (d, fs) =
     (if \<not> hookShouldGenerate h cls then generateLoop separator h rest (d, fs)
      else
        (case fileNameForClass h cls of
           None \<Rightarrow> generateLoop separator h rest (d, fs)
         | Some fileName \<Rightarrow>
             (let path = outDir d @ ''/'' @ subDirectoryForClass separator d cls @ ''/'' @ fileName;
                  (changed, fs') = fileOutDone h fs path (generateClass h cls);
                  d1 = (if changed
                        then d\<lparr>numGeneratedWritten := int32 (numGeneratedWritten d + 1)\<rparr>
                        else d);
                  d2 = d1\<lparr>numGenerated := int32 (numGenerated d1 + 1)\<rparr>
              in generateLoop separator h rest (d2, fs'))))"

definition generate ::
  "char \<Rightarrow> 'fs GeneratorHooks \<Rightarrow> AbstractMetaClass list \<Rightarrow> GeneratorPrivate \<times> 'fs
    \<Rightarrow> GeneratorPrivate \<times> 'fs" where
  "generate separator h classes s =
     (case generateLoop separator h classes s of (d, fs) \<Rightarrow> (d, finishGeneration h fs))"

fun sinkReports ::
  "char \<Rightarrow> 'fs GeneratorHooks \<Rightarrow> AbstractMetaClass list \<Rightarrow> GeneratorPrivate \<times> 'fs \<Rightarrow> bool list" where
  \<comment> \<open>for the statement of the counters' meaning only: the answers of \<open>fileOut.done()\<close>
      during the loop, in order\<close>
  "sinkReports separator h [] (d, fs) = []"
| "sinkReports separator h (cls # rest) (d, fs) =
     (if \<not> hookShouldGenerate h cls then sinkReports separator h rest (d, fs)
      else
        (case fileNameForClass h cls of
           None \<Rightarrow> sinkReports separator h rest (d, fs)
         | Some fileName \<Rightarrow>
             (case generateLoop separator h [cls] (d, fs) of
                (d', fs') \<Rightarrow>
                  fst (fileOutDone h fs
                         (outDir d @ ''/'' @ subDirectoryForClass separator d cls @ ''/'' @ fileName)
                         (generateClass h cls))
                  # sinkReports separator h rest (d', fs'))))"


definition numGeneratedAndWritten :: "GeneratorPrivate \<Rightarrow> int" where
  "numGeneratedAndWritten d = numGeneratedWritten d"

text \<open>
  What is done to a generator after its construction: the setters, \<open>setup\<close>, runs of
  \<open>generate\<close> over the class list of the moment, and changes of the files from outside.
\<close>

datatype 'fs GeneratorCall =
    SetOutputDirectory string
  | SetLicenseComment string
  | Setup "TypeEntry list list" bool
  | Generate "AbstractMetaClass list"
  | FilesChanged 'fs

fun call ::
  "char \<Rightarrow> 'fs GeneratorHooks \<Rightarrow> GeneratorPrivate \<times> 'fs \<Rightarrow> 'fs GeneratorCall
    \<Rightarrow> GeneratorPrivate \<times> 'fs" where
  "call separator h (d, fs) (SetOutputDirectory dir) = (setOutputDirectory dir d, fs)"
| "call separator h (d, fs) (SetLicenseComment license) = (setLicenseComment license d, fs)"
| "call separator h (d, fs) (Setup allEntries doSetup) =
     (snd (setup_generator allEntries doSetup d), fs)"
| "call separator h (d, fs) (Generate classes) = generate separator h classes (d, fs)"
| "call separator h (d, fs) (FilesChanged fs') = (d, fs')"

fun classesGenerated :: "'fs GeneratorCall list \<Rightarrow> nat" where
  \<comment> \<open>the number of classes that the runs of \<open>generate\<close> among the calls went through\<close>
  "classesGenerated [] = 0"
| "classesGenerated (Generate classes # cs) = length classes + classesGenerated cs"
| "classesGenerated (c # cs) = classesGenerated cs"

definition calls ::
  "char \<Rightarrow> 'fs GeneratorHooks \<Rightarrow> 'fs GeneratorCall list \<Rightarrow> 'fs \<Rightarrow> GeneratorPrivate \<times> 'fs" where
  \<comment> \<open>the state after the calls, from the constructor's state and the files \<open>fs\<close>\<close>
  "calls separator h cs fs = foldl (call separator h) (Generator, fs) cs"

definition considered :: "'fs GeneratorHooks \<Rightarrow> AbstractMetaClass list \<Rightarrow> AbstractMetaClass list" where
  \<comment> \<open>the classes that pass both tests of the loop\<close>
  "considered h classes =
     filter (\<lambda>cls. hookShouldGenerate h cls \<and> fileNameForClass h cls \<noteq> None) classes"

section \<open>The container case as the specification states it\<close>

definition bareContainerName :: "string \<Rightarrow> string" where
  \<comment> \<open>the signature without a leading const qualifier and a trailing reference marker\<close>
  "bareContainerName s =
     (let c = (if startsWith s ''const '' then drop 6 s else s)
      in if endsWith c ''&'' then trimmed (butlast c) else c)"

definition containerConstructor_spec :: "string \<Rightarrow> string" where
  \<comment> \<open>the order of the specification: strip first, then look for the pointer marker\<close>
  "containerConstructor_spec s =
     (if endsWith (bareContainerName s) ''*'' then ''0''
      else ''::'' @ bareContainerName s @ ''()'')"

section \<open>Example inputs\<close>

definition entry :: "nat \<Rightarrow> string \<Rightarrow> TypeEntry" where
  "entry a n =
     \<lparr>entryAddress = a, name = n, qualifiedCppName = n, defaultConstructor = [],
      hasDefaultConstructor = False, codeGeneration = {GenerateTargetLang}, generateCode = True, isTypeSystemType = False,
      isVoid = False, isPrimitive = False, isCppPrimitive = False, entryIsEnum = False,
      entryIsFlags = False, isComplex = False, isGenericClass = False\<rparr>"

definition widgetEntry :: TypeEntry where
  "widgetEntry = (entry 1 ''Widget'')\<lparr>isComplex := True\<rparr>"

definition intEntry :: TypeEntry where
  "intEntry = (entry 2 ''int'')\<lparr>isPrimitive := True, isCppPrimitive := True\<rparr>"

definition vectorEntry :: TypeEntry where
  "vectorEntry = (entry 3 ''Vector<int>'')\<lparr>isComplex := True\<rparr>"

definition typeSystemEntry :: TypeEntry where
  "typeSystemEntry = (entry 4 ''a.b.c'')\<lparr>isTypeSystemType := True\<rparr>"

definition plainType ::
  "TypeEntry \<Rightarrow> TypeUsagePattern \<Rightarrow> int \<Rightarrow> bool \<Rightarrow> bool \<Rightarrow> AbstractMetaType" where
  \<comment> \<open>entry, usage pattern, indirections, reference, constant\<close>
  "plainType e p n r c = AbstractMetaType e p n r c [] None None"

definition argument ::
  "AbstractMetaType \<Rightarrow> string \<Rightarrow> int \<Rightarrow> string \<Rightarrow> string \<Rightarrow> AbstractMetaArgument" where
  \<comment> \<open>type, name, index, effective default value, original default value\<close>
  "argument t n i d od =
     \<lparr>argType = t, argName = n, argumentIndex = i, defaultValueExpression = d,
      originalDefaultValueExpression = od\<rparr>"

definition constructor :: "AbstractMetaArgument list \<Rightarrow> bool \<Rightarrow> bool \<Rightarrow> AbstractMetaFunction" where
  \<comment> \<open>arguments, private, copy constructor\<close>
  "constructor as priv cp =
     \<lparr>arguments = as, funcType = None, originalName = ''Widget'', isUserAdded = False,
      isPrivate = priv, isCopyConstructor = cp\<rparr>"

definition widgetClass :: "AbstractMetaFunction list \<Rightarrow> AbstractMetaClass" where
  "widgetClass ctors =
     \<lparr>className = ''Widget'', classQualifiedCppName = ''Widget'', classTypeEntry = widgetEntry,
      package = [], constructors = ctors\<rparr>"

definition intArgument :: "string \<Rightarrow> int \<Rightarrow> AbstractMetaArgument" where
  "intArgument n i = argument (plainType intEntry PrimitivePattern 0 False False) n i [] []"

definition copyConstructor :: AbstractMetaFunction where
  \<comment> \<open>\<open>Widget(const Widget& other)\<close>\<close>
  "copyConstructor =
     constructor [argument (plainType widgetEntry ValuePattern 0 True True) ''other'' 0 [] []]
       False True"

definition overriddenConstructor :: AbstractMetaFunction where
  \<comment> \<open>\<open>Widget(int x = 0, int y = 0)\<close>, the default value of \<open>x\<close> overridden to \<open>42\<close>\<close>
  "overriddenConstructor =
     constructor
       [argument (plainType intEntry PrimitivePattern 0 False False) ''x'' 0 ''42'' ''0'',
        argument (plainType intEntry PrimitivePattern 0 False False) ''y'' 1 ''0'' ''0'']
       False False"

definition parentConstructor :: AbstractMetaFunction where
  \<comment> \<open>\<open>Widget(Widget* parent = 0)\<close>, the default value overridden to \<open>NULL\<close>\<close>
  "parentConstructor =
     constructor
       [argument (plainType widgetEntry ObjectPattern 1 False False) ''parent'' 0 ''NULL'' ''0'']
       False False"

definition configuredGenerator :: GeneratorPrivate where
  \<comment> \<open>a generator with the output directory \<open>out\<close>, after \<open>setup\<close> found the package \<open>a.b.c\<close>\<close>
  "configuredGenerator =
     snd (setup_generator [[intEntry], [widgetEntry, typeSystemEntry]] True
            (setOutputDirectory ''out'' Generator))"


definition configuration :: "(string \<rightharpoonup> string) GeneratorCall list" where
  \<comment> \<open>the calls that lead to it\<close>
  "configuration =
     [SetOutputDirectory ''out'', Setup [[intEntry], [widgetEntry, typeSystemEntry]] True]"

definition fileHooks :: "(string \<rightharpoonup> string) GeneratorHooks" where
  \<comment> \<open>a file sink that keeps the files in a map and reports a change of content\<close>
  "fileHooks =
     \<lparr>hookShouldGenerate = shouldGenerate,
      fileNameForClass = (\<lambda>cls. if className cls = [] then None
                                 else Some (className cls @ ''.cpp'')),
      generateClass = (\<lambda>cls. ''// '' @ className cls),
      fileOutDone = (\<lambda>fs path content. (fs path \<noteq> Some content, fs(path \<mapsto> content))),
      finishGeneration = (\<lambda>fs. fs)\<rparr>"


definition lastIndexFunction :: AbstractMetaFunction where
  \<comment> \<open>a function whose argument carries the largest \<open>int\<close> as its index\<close>
  "lastIndexFunction =
     \<lparr>arguments = [intArgument ''x'' 2147483647], funcType = None, originalName = ''f'',
      isUserAdded = False, isPrivate = False, isCopyConstructor = False\<rparr>"


section \<open>Properties\<close>

subsection \<open>Auxiliary facts\<close>

lemma arg_default_construction: "arg ''::%1()'' x = ''::'' @ x @ ''()''"
  by (simp add: arg_def escapeAt_def digitValue_def)

lemma arg_pointer_cast: "arg ''((::%1*)0)'' x = ''((::'' @ x @ ''*)0)''"
  by (simp add: arg_def escapeAt_def digitValue_def)

lemma arg_native_pointer_cast: "arg ''((%1*)0)'' x = ''(('' @ x @ ''*)0)''"
  by (simp add: arg_def escapeAt_def digitValue_def)

lemma maxArgsLoop_zero_arguments:
  "\<exists>ctor \<in> set ctors. isCandidate ctor \<and> arguments ctor = [] \<Longrightarrow> maxArgsLoop ctors m = 0"
  by (induction ctors arbitrary: m) (auto simp: Let_def)

lemma maxArgsLoop_no_candidate:
  "\<forall>ctor \<in> set ctors. \<not> isCandidate ctor \<Longrightarrow> maxArgsLoop ctors m = m"
  by (induction ctors arbitrary: m) (auto simp: Let_def)

lemmas example_defs =
  entry_def widgetEntry_def intEntry_def vectorEntry_def typeSystemEntry_def plainType_def
  argument_def constructor_def widgetClass_def intArgument_def copyConstructor_def
  parentConstructor_def

subsection \<open>Classes without a candidate constructor\<close>

text \<open>
  C1, as amended. A class without a declared default-construction expression, all of
  whose constructors are skipped by the search (user-added, private or copy
  constructors), leaves \<open>maxArgs\<close> at its initial 0, and the constructor search answers
  as for a constructor without arguments: the plain call \<open>::Class()\<close>, not the empty
  expression.
\<close>

theorem minimalConstructor_class_no_candidate:
  assumes "\<not> hasDefaultConstructor (classTypeEntry metaClass)"
    and "\<forall>ctor \<in> set (constructors metaClass). \<not> isCandidate ctor"
  shows "minimalConstructor_class fuel sig classes (Some metaClass)
         = Some (''::'' @ classQualifiedCppName metaClass @ ''()'')"
  using assms by (simp add: maxArgsLoop_no_candidate arg_default_construction)

theorem minimalConstructor_class_no_candidate_witness:
  "\<not> hasDefaultConstructor (classTypeEntry (widgetClass [constructor [] True False, copyConstructor]))
   \<and> \<not> isCandidate (constructor [] True False)
   \<and> \<not> isCandidate copyConstructor
   \<and> minimalConstructor_class 0 cppSignature []
        (Some (widgetClass [constructor [] True False, copyConstructor]))
      = Some ''::Widget()''"
  using minimalConstructor_class_no_candidate
    [of "widgetClass [constructor [] True False, copyConstructor]" 0 cppSignature "[]"]
  by (simp add: example_defs isCandidate_def)

text \<open>
  C1 as stated fails: the class whose only constructor is the private
  \<open>Widget(int)\<close> has no declared default expression and no candidate, and the
  result is not empty.
\<close>

theorem minimalConstructor_class_private_only:
  "\<not> hasDefaultConstructor (classTypeEntry (widgetClass [constructor [intArgument ''x'' 0] True False]))
   \<and> isPrivate (constructor [intArgument ''x'' 0] True False)
   \<and> minimalConstructor_class 0 cppSignature []
        (Some (widgetClass [constructor [intArgument ''x'' 0] True False]))
      = Some ''::Widget()''
   \<and> minimalConstructor_class 0 cppSignature []
        (Some (widgetClass [constructor [intArgument ''x'' 0] True False]))
      \<noteq> Some []"
  by (simp add: example_defs isCandidate_def arg_default_construction)

subsection \<open>Containers\<close>

lemma endsWith_single: "endsWith s [x] = (s \<noteq> [] \<and> last s = x)"
proof (cases s rule: rev_cases)
  case Nil
  then show ?thesis by (simp add: endsWith_def)
next
  case (snoc ys y)
  then show ?thesis by (auto simp: endsWith_def)
qed

lemma bareContainerName_pointer:
  assumes "endsWith s ''*''"
  shows "endsWith (bareContainerName s) ''*''"
proof -
  have s: "s \<noteq> []" "last s = CHR ''*''"
    using assms by (simp_all add: endsWith_single)
  have c: "endsWith (if startsWith s ''const '' then drop 6 s else s) ''*''"
  proof (cases "startsWith s ''const ''")
    case True
    then have "take (length ''const '') s = ''const ''"
      unfolding startsWith_def .
    moreover have "length ''const '' = (6::nat)"
      by simp
    ultimately have "take 6 s = ''const ''"
      by metis
    then have d: "s = ''const '' @ drop 6 s"
      by (metis append_take_drop_id)
    have n: "drop 6 s \<noteq> []"
    proof
      assume "drop 6 s = []"
      then have "s = ''const ''" using d by simp
      then show False using s by simp
    qed
    then have "last (drop 6 s) = last s"
      using d by (metis last_appendR)
    then show ?thesis using True s n by (simp add: endsWith_single)
  next
    case False
    then show ?thesis using assms by simp
  qed
  then have "\<not> endsWith (if startsWith s ''const '' then drop 6 s else s) ''&''"
    by (simp add: endsWith_single)
  with c show ?thesis by (simp add: bareContainerName_def Let_def)
qed

lemma minimalConstructor_container_agrees:
  assumes "isContainer t"
    and "endsWith (bareContainerName (sig t)) ''*'' \<longrightarrow> endsWith (sig t) ''*''"
  shows "minimalConstructor_type fuel sig classes (Some t)
         = Some (containerConstructor_spec (sig t))"
proof -
  have "minimalConstructor_type fuel sig classes (Some t)
         = Some (if endsWith (sig t) ''*'' then ''0''
                 else ''::'' @ bareContainerName (sig t) @ ''()'')"
    using assms(1)
    by (auto simp add: isContainer_def isObjectType_def isObject_def isQObject_def
        arg_default_construction Let_def remove_def chop_def butlast_conv_take startsWith_def
        bareContainerName_def)
  then show ?thesis
    using assms(2) bareContainerName_pointer [of "sig t"]
    by (auto simp: containerConstructor_spec_def)
qed

lemma minimalConstructor_container_example:
  "minimalConstructor_type 0 cppSignature []
     (Some (plainType vectorEntry ContainerPattern 0 True True))
   = Some ''::Vector<int>()''"
  using minimalConstructor_container_agrees
    [of "plainType vectorEntry ContainerPattern 0 True True" cppSignature 0 "[]"]
  by (simp add: example_defs isContainer_def cppSignature_def bareContainerName_def
      containerConstructor_spec_def endsWith_def startsWith_def trimmed_def isSpace_def)

text \<open>
  C2. For a container instantiation, the null-pointer literal \<open>0\<close> is due when the bare
  container name (the canonical signature without a leading \<open>const\<close> qualifier and a
  trailing reference marker) ends in the pointer marker, and the global-scope
  default-construction call on the bare name otherwise. The code looks for the pointer
  marker before it strips the reference marker, and misses the pointer behind a
  reference: for the container signature \<open>Vector<int>*&\<close>, where \<open>0\<close> is due, it
  returns the call \<open>::Vector<int>*()\<close> on a name that still carries the pointer marker.
  On every other signature it returns what is due (\<open>minimalConstructor_container_agrees\<close>).
\<close>

theorem minimalConstructor_container_pointer_reference:
  "isContainer (plainType vectorEntry ContainerPattern 1 True False)
   \<and> cppSignature (plainType vectorEntry ContainerPattern 1 True False) = ''Vector<int>*&''
   \<and> bareContainerName ''Vector<int>*&'' = ''Vector<int>*''
   \<and> containerConstructor_spec ''Vector<int>*&'' = ''0''
   \<and> minimalConstructor_type 0 cppSignature []
        (Some (plainType vectorEntry ContainerPattern 1 True False))
      = Some ''::Vector<int>*()''"
  by (simp add: example_defs isContainer_def cppSignature_def bareContainerName_def
      containerConstructor_spec_def isObjectType_def isObject_def isQObject_def
      endsWith_def startsWith_def trimmed_def isSpace_def remove_def chop_def
      arg_default_construction)

subsection \<open>A constructor without arguments\<close>

text \<open>
  C3. When the class has no declared default-construction expression and one of its
  candidate constructors (public, not user-added, not a copy constructor) takes no
  argument, \<open>minimalConstructor\<close> returns the plain call \<open>::Class()\<close>, whatever the
  other constructors are and wherever the constructor stands in the list.
\<close>

theorem minimalConstructor_class_zero_arguments:
  assumes "\<not> hasDefaultConstructor (classTypeEntry metaClass)"
    and "\<exists>ctor \<in> set (constructors metaClass). isCandidate ctor \<and> arguments ctor = []"
  shows "minimalConstructor_class fuel sig classes (Some metaClass)
         = Some (''::'' @ classQualifiedCppName metaClass @ ''()'')"
  using assms by (simp add: maxArgsLoop_zero_arguments arg_default_construction)

theorem minimalConstructor_class_zero_arguments_witness:
  "\<not> hasDefaultConstructor
        (classTypeEntry (widgetClass [constructor [intArgument ''x'' 0, intArgument ''y'' 1] False False,
                                      constructor [] False False]))
   \<and> isCandidate (constructor [] False False)
   \<and> arguments (constructor [] False False) = []
   \<and> minimalConstructor_class 0 cppSignature []
        (Some (widgetClass [constructor [intArgument ''x'' 0, intArgument ''y'' 1] False False,
                            constructor [] False False]))
      = Some ''::Widget()''"
  using minimalConstructor_class_zero_arguments
    [of "widgetClass [constructor [intArgument ''x'' 0, intArgument ''y'' 1] False False,
                      constructor [] False False]" 0 cppSignature "[]"]
  by (simp add: example_defs isCandidate_def)

subsection \<open>Pointers\<close>

text \<open>
  C4, as amended. For an instantiation that is not a container, has indirection depth at
  least 1, is not a native pointer and is not a reference to an object type,
  \<open>minimalConstructor\<close> returns the null-pointer cast qualified with the global scope;
  for the type entry \<open>Widget\<close> it is \<open>((::Widget*)0)\<close>.
\<close>

theorem minimalConstructor_pointer:
  assumes "\<not> isContainer t"
    and "1 \<le> indirections t"
    and "\<not> isNativePointer t"
    and "\<not> (isReference t \<and> isObjectType t)"
  shows "minimalConstructor_type fuel sig classes (Some t)
         = Some (''((::'' @ qualifiedCppName (typeEntry t) @ ''*)0)'')"
  using assms by (simp add: isPointer_def arg_pointer_cast)

theorem minimalConstructor_pointer_witness:
  "\<not> isContainer (plainType widgetEntry ObjectPattern 1 False False)
   \<and> 1 \<le> indirections (plainType widgetEntry ObjectPattern 1 False False)
   \<and> \<not> isNativePointer (plainType widgetEntry ObjectPattern 1 False False)
   \<and> \<not> isReference (plainType widgetEntry ObjectPattern 1 False False)
   \<and> minimalConstructor_type 0 cppSignature []
        (Some (plainType widgetEntry ObjectPattern 1 False False))
      = Some ''((::Widget*)0)''"
  using minimalConstructor_pointer
    [of "plainType widgetEntry ObjectPattern 1 False False" 0 cppSignature "[]"]
  by (simp add: example_defs isContainer_def isNativePointer_def)

text \<open>
  C4 as stated fails twice: a native pointer \<open>Widget**\<close> gets the cast without
  the global-scope qualifier, and a reference to an object pointer, \<open>Widget*&\<close>, gets
  the empty expression.
\<close>

theorem minimalConstructor_pointer_native_or_reference:
  "\<not> isContainer (plainType widgetEntry NativePointerPattern 2 False False)
   \<and> 1 \<le> indirections (plainType widgetEntry NativePointerPattern 2 False False)
   \<and> minimalConstructor_type 0 cppSignature []
        (Some (plainType widgetEntry NativePointerPattern 2 False False))
      = Some ''((Widget*)0)''
   \<and> \<not> isContainer (plainType widgetEntry ObjectPattern 1 True False)
   \<and> 1 \<le> indirections (plainType widgetEntry ObjectPattern 1 True False)
   \<and> minimalConstructor_type 0 cppSignature []
        (Some (plainType widgetEntry ObjectPattern 1 True False))
      = Some []"
  by (simp add: example_defs isContainer_def isNativePointer_def isObjectType_def isObject_def
      arg_native_pointer_cast)

subsection \<open>Arguments with a default value\<close>

lemma firstPass_single_candidate:
  assumes "isCandidate ctor"
    and "firstPassArgs mc metaClass (arguments ctor) [] = Some args"
    and "args \<noteq> []"
    and "length (arguments ctor) \<in> set is"
  shows "firstPass mc metaClass [ctor] is candidates
         = Some (Inl (arg (arg ''::%1(%2)'' (classQualifiedCppName metaClass)) (join args '', '')))"
  using assms(4)
proof (induction "is" arbitrary: candidates)
  case Nil
  then show ?case by simp
next
  case (Cons i "is")
  show ?case
  proof (cases "length (arguments ctor) = i")
    case True
    then show ?thesis using assms(1-3) by simp
  next
    case False
    then have "length (arguments ctor) \<in> set is" using Cons.prems by simp
    from Cons.IH [OF this] False assms(1) show ?thesis by simp
  qed
qed

text \<open>
  C5, as amended. In the first pass, an argument whose type is not the class's own type
  and that carries a non-empty original default-value text ends the loop over the
  arguments of its candidate: when the effective default-value text is non-empty and
  differs from the original it is appended to the arguments built so far, otherwise
  nothing is appended; the arguments after it are not looked at, and no value is
  synthesized for it. So a class whose only constructor starts with such an argument,
  with an overridden default value, gets the call with that one value, however many
  arguments follow.
\<close>

theorem firstPassArgs_default_value:
  assumes "entryAddress (typeEntry (argType a)) \<noteq> entryAddress (classTypeEntry metaClass)"
    and "originalDefaultValueExpression a \<noteq> []"
  shows "firstPassArgs mc metaClass (a # rest) args
         = Some (if defaultValueExpression a \<noteq> []
                    \<and> defaultValueExpression a \<noteq> originalDefaultValueExpression a
                 then args @ [defaultValueExpression a] else args)
       \<and> (\<not> hasDefaultConstructor (classTypeEntry metaClass)
            \<and> constructors metaClass = [ctor] \<and> isCandidate ctor \<and> arguments ctor = a # rest
            \<and> defaultValueExpression a \<noteq> []
            \<and> defaultValueExpression a \<noteq> originalDefaultValueExpression a
          \<longrightarrow> minimalConstructor_class fuel sig classes (Some metaClass)
              = Some (arg (arg ''::%1(%2)'' (classQualifiedCppName metaClass))
                        (defaultValueExpression a)))"
proof (intro conjI impI)
  show first: "firstPassArgs mc metaClass (a # rest) args
         = Some (if defaultValueExpression a \<noteq> []
                    \<and> defaultValueExpression a \<noteq> originalDefaultValueExpression a
                 then args @ [defaultValueExpression a] else args)" for mc args
    using assms by (simp add: Let_def)
  assume h: "\<not> hasDefaultConstructor (classTypeEntry metaClass)
            \<and> constructors metaClass = [ctor] \<and> isCandidate ctor \<and> arguments ctor = a # rest
            \<and> defaultValueExpression a \<noteq> []
            \<and> defaultValueExpression a \<noteq> originalDefaultValueExpression a"
  let ?mc = "\<lambda>t. minimalConstructor_type fuel sig classes (Some t)"
  have m: "maxArgsLoop [ctor] 0 = Suc (length rest)"
    using h by simp
  have f: "firstPassArgs ?mc metaClass (arguments ctor) [] = Some [defaultValueExpression a]"
    using h first [of ?mc "[]"] by simp
  have "firstPass ?mc metaClass [ctor] [1..<Suc (Suc (length rest))] []
        = Some (Inl (arg (arg ''::%1(%2)'' (classQualifiedCppName metaClass))
                      (join [defaultValueExpression a] '', '')))"
    using h by (intro firstPass_single_candidate [OF _ f]) simp_all
  then show "minimalConstructor_class fuel sig classes (Some metaClass)
              = Some (arg (arg ''::%1(%2)'' (classQualifiedCppName metaClass))
                        (defaultValueExpression a))"
    using h m by (simp add: Let_def del: upt_Suc)
qed

theorem firstPassArgs_default_value_witness:
  "entryAddress (typeEntry (argType (argument (plainType intEntry PrimitivePattern 0 False False)
                                      ''x'' 0 ''42'' ''0'')))
     \<noteq> entryAddress (classTypeEntry (widgetClass [overriddenConstructor]))
   \<and> arguments overriddenConstructor
      = [argument (plainType intEntry PrimitivePattern 0 False False) ''x'' 0 ''42'' ''0'',
         argument (plainType intEntry PrimitivePattern 0 False False) ''y'' 1 ''0'' ''0'']
   \<and> firstPassArgs (\<lambda>t. None) (widgetClass [overriddenConstructor])
        (arguments overriddenConstructor) []
      = Some [''42'']
   \<and> minimalConstructor_class 0 cppSignature [] (Some (widgetClass [overriddenConstructor]))
      = Some ''::Widget(42)''
   \<and> firstPassArgs (\<lambda>t. None) (widgetClass [])
        [argument (plainType intEntry PrimitivePattern 0 False False) ''x'' 0 ''0'' ''0'',
         intArgument ''y'' 1] [''1'']
      = Some [''1'']"
  using firstPassArgs_default_value
    [where a = "argument (plainType intEntry PrimitivePattern 0 False False) ''x'' 0 ''42'' ''0''"
       and metaClass = "widgetClass [overriddenConstructor]" and mc = "\<lambda>t. None"
       and rest = "[argument (plainType intEntry PrimitivePattern 0 False False) ''y'' 1 ''0'' ''0'']"
       and args = "[]" and ctor = overriddenConstructor
       and fuel = 0 and sig = cppSignature and classes = "[]"]
    firstPassArgs_default_value
    [where a = "argument (plainType intEntry PrimitivePattern 0 False False) ''x'' 0 ''0'' ''0''"
       and metaClass = "widgetClass []" and mc = "\<lambda>t. None"
       and rest = "[intArgument ''y'' 1]" and args = "[''1'']"]
  by (simp add: example_defs overriddenConstructor_def isCandidate_def arg_def escapeAt_def
      digitValue_def)

text \<open>
  C5 as stated fails on an argument of the class's own type: the test for it comes
  first and empties the argument list. For \<open>Widget(Widget* parent = 0)\<close> with the
  default overridden to \<open>NULL\<close>, nothing is appended and the class gets no expression;
  with the effective text appended it would have been \<open>::Widget(NULL)\<close>.
\<close>

theorem firstPassArgs_own_type_first:
  "originalDefaultValueExpression (hd (arguments parentConstructor)) = ''0''
   \<and> defaultValueExpression (hd (arguments parentConstructor)) = ''NULL''
   \<and> firstPassArgs (\<lambda>t. minimalConstructor_type 0 cppSignature [] (Some t))
        (widgetClass [parentConstructor]) (arguments parentConstructor) []
      = Some []
   \<and> minimalConstructor_class 0 cppSignature [] (Some (widgetClass [parentConstructor]))
      = Some []"
  by (simp add: example_defs isCandidate_def)

subsection \<open>Rendering a type without its qualifiers\<close>

text \<open>
  C6. Let \<open>t\<close> be the type that \<open>translateType\<close> renders (the given type, or inside a
  generic class its original template type). When \<open>t\<close> is not an array, the
  enum-as-int case does not apply, \<open>OriginalName\<close> is not set and \<open>ExcludeConst\<close> or
  \<open>ExcludeReference\<close> is, the result is the canonical signature of a copy of \<open>t\<close> that
  differs from \<open>t\<close> only in the cleared qualifiers, with \<open>::\<close> in front unless the type
  entry is void or a C++ primitive. For \<open>const Widget&\<close> with both options the result
  is \<open>::Widget\<close>.
\<close>

theorem translateType_exclude:
  assumes "resolveTemplateType ctx cType = Some t"
    and "\<not> isArray t"
    and "\<not> (EnumAsInts \<in> options \<and> (isEnum t \<or> isFlags t))"
    and "OriginalName \<notin> options"
    and "ExcludeConst \<in> options \<or> ExcludeReference \<in> options"
  shows "\<exists>copyType.
           translateType sig cType ctx options
             = (if isVoid (typeEntry t) \<or> isCppPrimitive (typeEntry t) then sig copyType
                else ''::'' @ sig copyType)
         \<and> isConstant copyType = (isConstant t \<and> ExcludeConst \<notin> options)
         \<and> isReference copyType = (isReference t \<and> ExcludeReference \<notin> options)
         \<and> typeEntry copyType = typeEntry t
         \<and> typeUsagePattern copyType = typeUsagePattern t
         \<and> indirections copyType = indirections t
         \<and> originalTypeDescription copyType = originalTypeDescription t
         \<and> arrayElementType copyType = arrayElementType t
         \<and> originalTemplateType copyType = originalTemplateType t"
  using assms
  by (subst translateType.simps)
     (auto simp: excludedText_def Let_def setConstant_def setReference_def)

theorem translateType_exclude_witness:
  "resolveTemplateType None (Some (plainType widgetEntry ValuePattern 0 True True))
     = Some (plainType widgetEntry ValuePattern 0 True True)
   \<and> \<not> isArray (plainType widgetEntry ValuePattern 0 True True)
   \<and> cppSignature (plainType widgetEntry ValuePattern 0 True True) = ''const Widget&''
   \<and> translateType cppSignature (Some (plainType widgetEntry ValuePattern 0 True True)) None
        {ExcludeConst, ExcludeReference}
      = ''::Widget''
   \<and> translateType cppSignature (Some (plainType intEntry PrimitivePattern 0 True True)) None
        {ExcludeConst}
      = ''int&''"
  using translateType_exclude
    [of None "Some (plainType widgetEntry ValuePattern 0 True True)"
        "plainType widgetEntry ValuePattern 0 True True" "{ExcludeConst, ExcludeReference}"
        cppSignature]
    translateType_exclude
    [of None "Some (plainType intEntry PrimitivePattern 0 True True)"
        "plainType intEntry PrimitivePattern 0 True True" "{ExcludeConst}" cppSignature]
  by (auto simp: example_defs resolveTemplateType_def isArray_def isEnum_def isFlags_def
      cppSignature_def)

subsection \<open>Template variables\<close>



lemma int32_id: "- 2147483648 \<le> x \<Longrightarrow> x \<le> 2147483647 \<Longrightarrow> int32 x = x"
  by (simp add: int32_def mod_pos_pos_trivial)

lemma char_of_digit:
  "char_of (48::nat) = CHR ''0''" "char_of (49::nat) = CHR ''1''" "char_of (50::nat) = CHR ''2''"
  "char_of (51::nat) = CHR ''3''" "char_of (52::nat) = CHR ''4''" "char_of (53::nat) = CHR ''5''"
  "char_of (54::nat) = CHR ''6''" "char_of (55::nat) = CHR ''7''" "char_of (56::nat) = CHR ''8''"
  "char_of (57::nat) = CHR ''9''"
  by code_simp+


lemma int32_wraps: "int32 2147483648 = - 2147483648"
  by (simp add: int32_def)

lemma number_smallest: "number (- 2147483648) = ''-2147483648''"
  by (simp add: number_def char_of_digit)

lemma replaceTemplateVariables_index_wraps:
  "replaceTemplateVariables cppSignature (\<lambda>f. None) (\<lambda>f opts. []) (\<lambda>f opts. [])
     ''[%-2147483648]'' lastIndexFunction = ''[x]''"
  by (simp add: replaceTemplateVariables_def example_defs lastIndexFunction_def int32_wraps
      number_smallest startsWith_def resolveTemplateType_def translateType.simps)






subsection \<open>Reindentation\<close>

text \<open>
  C8. The loop that should strip the trailing white space reads the character at
  \<open>line.end()\<close>, one past the last character, which is the terminating null and never a
  space: the loop leaves every line as it is. With an empty indentation, the line \<open>x;\<close>
  between two spaces on each side loses the two leading spaces and keeps the two
  trailing ones.
\<close>

theorem formatCode_keeps_trailing_space:
  "chopTrailing line = line
   \<and> formatCode [] ''  x;  '' = ''x;  '' @ [newline]"
  by (simp add: formatCode_def formatLine_def newline_def trimmed_def isSpace_def
      indexOfNonSpace_def emptyLineMatch_def endChar_def at_def remove_def)

subsection \<open>The counters of the driver\<close>

lemma generateLoop_counters:
  assumes "generateLoop sep h cs (d, fs) = (d', fs')"
    and "- 2147483648 \<le> numGenerated d"
    and "numGenerated d + int (length cs) \<le> 2147483647"
    and "- 2147483648 \<le> numGeneratedWritten d"
    and "numGeneratedWritten d + int (length cs) \<le> 2147483647"
  shows "numGenerated d' = numGenerated d + int (length (considered h cs))
   \<and> numGeneratedWritten d'
       = numGeneratedWritten d + int (length (filter id (sinkReports sep h cs (d, fs))))
   \<and> length (sinkReports sep h cs (d, fs)) = length (considered h cs)"
  using assms
proof (induction cs arbitrary: d fs)
  case Nil
  then show ?case by (simp add: considered_def)
next
  case (Cons c cs)
  show ?case
  proof (cases "hookShouldGenerate h c \<and> fileNameForClass h c \<noteq> None")
    case False
    have "generateLoop sep h cs (d, fs) = (d', fs')"
      using False Cons.prems(1) by (auto split: option.splits)
    from Cons.IH [OF this] Cons.prems(2-5) False show ?thesis
      by (auto simp: considered_def)
  next
    case True
    then obtain fileName where fn: "fileNameForClass h c = Some fileName" by auto
    obtain d1 fs1 where step: "generateLoop sep h [c] (d, fs) = (d1, fs1)"
      by (cases "generateLoop sep h [c] (d, fs)")
    have rest: "generateLoop sep h cs (d1, fs1) = (d', fs')"
      using Cons.prems(1) step True fn by (simp add: Let_def split: prod.splits)
    have g: "int32 (numGenerated d + 1) = numGenerated d + 1"
      using Cons.prems(2,3) by (intro int32_id) simp_all
    have w: "int32 (numGeneratedWritten d + 1) = numGeneratedWritten d + 1"
      using Cons.prems(4,5) by (intro int32_id) simp_all
    have d1: "numGenerated d1 = numGenerated d + 1"
      "numGeneratedWritten d1 = numGeneratedWritten d
          + (if fst (fileOutDone h fs
                       (outDir d @ ''/'' @ subDirectoryForClass sep d c @ ''/'' @ fileName)
                       (generateClass h c)) then 1 else 0)"
      using step True fn g w by (auto simp: Let_def split: prod.splits)
    have ih: "numGenerated d' = numGenerated d1 + int (length (considered h cs))
           \<and> numGeneratedWritten d'
               = numGeneratedWritten d1 + int (length (filter id (sinkReports sep h cs (d1, fs1))))
           \<and> length (sinkReports sep h cs (d1, fs1)) = length (considered h cs)"
      using Cons.prems(2-5) d1 by (intro Cons.IH [OF rest]) (simp_all split: if_splits)
    show ?thesis
      using ih d1 True fn step by (simp add: considered_def id_def)
  qed
qed

lemma generateLoop_append:
  "generateLoop sep h (xs @ ys) s = generateLoop sep h ys (generateLoop sep h xs s)"
proof (induction xs arbitrary: s)
  case Nil
  then show ?case by (cases s) simp
next
  case (Cons x xs)
  then show ?case by (cases s) (simp add: Let_def split: option.splits prod.splits)
qed

lemma generate_run:
  fixes h :: "'fs GeneratorHooks"
  assumes "generate sep h classes (d, fs) = (d', fs')"
    and "- 2147483648 \<le> numGenerated d"
    and "numGenerated d + int (length classes) \<le> 2147483647"
    and "- 2147483648 \<le> numGeneratedWritten d"
    and "numGeneratedWritten d + int (length classes) \<le> 2147483647"
  shows "numGenerated d' = numGenerated d + int (length (considered h classes))"
    and "numGeneratedWritten d'
        = numGeneratedWritten d + int (length (filter id (sinkReports sep h classes (d, fs))))"
    and "length (sinkReports sep h classes (d, fs)) = length (considered h classes)"
    and "numGeneratedWritten d' - numGeneratedWritten d \<le> numGenerated d' - numGenerated d"
    and "numGenerated d' \<le> numGenerated d + int (length classes)"
proof -
  obtain fs0 where loop: "generateLoop sep h classes (d, fs) = (d', fs0)"
    using assms(1) by (auto simp: generate_def split: prod.splits)
  note c = generateLoop_counters [OF loop assms(2-5)]
  have "length (filter id (sinkReports sep h classes (d, fs))) \<le> length (considered h classes)"
    using c length_filter_le [of id "sinkReports sep h classes (d, fs)"] by simp
  moreover have "length (considered h classes) \<le> length classes"
    by (simp add: considered_def)
  ultimately show "numGenerated d' = numGenerated d + int (length (considered h classes))"
    and "numGeneratedWritten d'
        = numGeneratedWritten d + int (length (filter id (sinkReports sep h classes (d, fs))))"
    and "length (sinkReports sep h classes (d, fs)) = length (considered h classes)"
    and "numGeneratedWritten d' - numGeneratedWritten d \<le> numGenerated d' - numGenerated d"
    and "numGenerated d' \<le> numGenerated d + int (length classes)"
    using c by simp_all
qed

lemma call_counters:
  assumes "0 \<le> numGeneratedWritten (fst s)"
    and "numGeneratedWritten (fst s) \<le> numGenerated (fst s)"
    and "numGenerated (fst s) \<le> int n"
    and "int n + int (classesGenerated [c]) \<le> 2147483647"
  shows "0 \<le> numGeneratedWritten (fst (call sep h s c))
       \<and> numGeneratedWritten (fst (call sep h s c)) \<le> numGenerated (fst (call sep h s c))
       \<and> numGenerated (fst (call sep h s c)) \<le> int (n + classesGenerated [c])"
proof (cases s)
  case (Pair d fs)
  show ?thesis
  proof (cases c)
    case (Generate classes)
    obtain d' fs' where g: "generate sep h classes (d, fs) = (d', fs')"
      by (cases "generate sep h classes (d, fs)")
    have b: "- 2147483648 \<le> numGenerated d" "numGenerated d + int (length classes) \<le> 2147483647"
      "- 2147483648 \<le> numGeneratedWritten d"
      "numGeneratedWritten d + int (length classes) \<le> 2147483647"
      using assms Pair Generate by simp_all
    show ?thesis
      using assms generate_run(2,4,5) [OF g b] Pair Generate g by simp
  qed (use assms Pair in \<open>simp_all add: setOutputDirectory_def setLicenseComment_def
      setup_generator_def split: option.splits\<close>)
qed

lemma classesGenerated_Cons:
  "classesGenerated (c # cs) = classesGenerated [c] + classesGenerated cs"
  by (cases c) simp_all

lemma classesGenerated_append:
  "classesGenerated (xs @ ys) = classesGenerated xs + classesGenerated ys"
proof (induction xs)
  case Nil
  then show ?case by simp
next
  case (Cons x xs)
  then show ?case
    using classesGenerated_Cons [of x "xs @ ys"] classesGenerated_Cons [of x xs] by simp
qed

lemma foldl_call_counters:
  assumes "0 \<le> numGeneratedWritten (fst s)"
    and "numGeneratedWritten (fst s) \<le> numGenerated (fst s)"
    and "numGenerated (fst s) \<le> int n"
    and "int n + int (classesGenerated cs) \<le> 2147483647"
  shows "0 \<le> numGeneratedWritten (fst (foldl (call sep h) s cs))
   \<and> numGeneratedWritten (fst (foldl (call sep h) s cs))
       \<le> numGenerated (fst (foldl (call sep h) s cs))
   \<and> numGenerated (fst (foldl (call sep h) s cs)) \<le> int (n + classesGenerated cs)"
  using assms
proof (induction cs arbitrary: s n)
  case Nil
  then show ?case by simp
next
  case (Cons c cs)
  have split: "classesGenerated (c # cs) = classesGenerated [c] + classesGenerated cs"
    by (rule classesGenerated_Cons)
  have one: "int n + int (classesGenerated [c]) \<le> 2147483647"
    using Cons.prems(4) split by simp
  note st = call_counters [OF Cons.prems(1-3) one, of sep h]
  have "int (n + classesGenerated [c]) + int (classesGenerated cs) \<le> 2147483647"
    using Cons.prems(4) split by simp
  from Cons.IH [OF _ _ _ this, of "call sep h s c"] st split show ?case
    by (simp add: add.assoc)
qed

lemma calls_counters:
  assumes "int (classesGenerated cs) \<le> 2147483647"
  shows "numGeneratedWritten (fst (calls sep h cs fs)) \<le> numGenerated (fst (calls sep h cs fs))"
  using foldl_call_counters [of "(Generator, fs)" 0 cs sep h] assms
  by (simp add: calls_def Generator_def)

text \<open>
  C9. As long as the counters stay within the range of the C++ \<open>int\<close> they are (they
  start in it, and the number of classes added to them does not leave it), a run of
  \<open>generate\<close> adds to \<open>numGenerated\<close> exactly the number of classes that pass
  \<open>shouldGenerate\<close> and have a file name, and to the written counter the number of those
  for which the file sink reported a change; neither counter decreases from one
  iteration of the loop to a later one; when the written counter is at most
  \<open>numGenerated\<close> before the run it is so after it, and it is so after every run of a
  generator, whatever was done to it since its construction.
\<close>

theorem generate_counters:
  fixes h :: "'fs GeneratorHooks"
  assumes "generate sep h classes (d, fs) = (d', fs')"
    and "- 2147483648 \<le> numGenerated d"
    and "numGenerated d + int (length classes) \<le> 2147483647"
    and "- 2147483648 \<le> numGeneratedWritten d"
    and "numGeneratedWritten d + int (length classes) \<le> 2147483647"
  shows "numGenerated d' = numGenerated d + int (length (considered h classes))
    \<and> numGeneratedWritten d'
        = numGeneratedWritten d + int (length (filter id (sinkReports sep h classes (d, fs))))
    \<and> length (sinkReports sep h classes (d, fs)) = length (considered h classes)
    \<and> numGenerated d' \<le> numGenerated d + int (length classes)
    \<and> (\<forall>xs ys. classes = xs @ ys \<longrightarrow>
          numGenerated (fst (generateLoop sep h xs (d, fs)))
            \<le> numGenerated (fst (generateLoop sep h classes (d, fs)))
        \<and> numGeneratedWritten (fst (generateLoop sep h xs (d, fs)))
            \<le> numGeneratedWritten (fst (generateLoop sep h classes (d, fs))))
    \<and> numGenerated d \<le> numGenerated d'
    \<and> numGeneratedWritten d \<le> numGeneratedWritten d'
    \<and> (numGeneratedAndWritten d \<le> numGenerated d
          \<longrightarrow> numGeneratedAndWritten d' \<le> numGenerated d')
    \<and> ((d, fs) = calls sep h cs fs0
          \<and> int (classesGenerated cs) + int (length classes) \<le> 2147483647
          \<longrightarrow> numGeneratedAndWritten d' \<le> numGenerated d')"
proof -
  note c = generate_run [OF assms]
  have mono: "numGenerated (fst (generateLoop sep h xs (d, fs)))
            \<le> numGenerated (fst (generateLoop sep h classes (d, fs)))
        \<and> numGeneratedWritten (fst (generateLoop sep h xs (d, fs)))
            \<le> numGeneratedWritten (fst (generateLoop sep h classes (d, fs)))"
    if split: "classes = xs @ ys" for xs ys
  proof -
    obtain d1 fs1 where a: "generateLoop sep h xs (d, fs) = (d1, fs1)"
      by (cases "generateLoop sep h xs (d, fs)")
    obtain d2 fs2 where b: "generateLoop sep h ys (d1, fs1) = (d2, fs2)"
      by (cases "generateLoop sep h ys (d1, fs1)")
    have bx: "numGenerated d + int (length xs) \<le> 2147483647"
      "numGeneratedWritten d + int (length xs) \<le> 2147483647"
      using assms(3,5) split by simp_all
    note cx = generateLoop_counters [OF a assms(2) bx(1) assms(4) bx(2)]
    have lc: "length (considered h xs) \<le> length xs"
      by (simp add: considered_def)
    have "length (filter id (sinkReports sep h xs (d, fs))) \<le> length (considered h xs)"
      using cx length_filter_le [of id "sinkReports sep h xs (d, fs)"] by simp
    with lc have lx: "length (considered h xs) \<le> length xs"
      "length (filter id (sinkReports sep h xs (d, fs))) \<le> length xs"
      by simp_all
    have "- 2147483648 \<le> numGenerated d1" "numGenerated d1 + int (length ys) \<le> 2147483647"
      "- 2147483648 \<le> numGeneratedWritten d1"
      "numGeneratedWritten d1 + int (length ys) \<le> 2147483647"
      using cx lx assms(2-5) split by simp_all
    from generateLoop_counters [OF b this] a b split show ?thesis
      by (simp add: generateLoop_append)
  qed
  have inv: "numGeneratedWritten d' \<le> numGenerated d'"
    if "(d, fs) = calls sep h cs fs0"
      and "int (classesGenerated cs) + int (length classes) \<le> 2147483647"
    using calls_counters [of "cs @ [Generate classes]" sep h fs0] that(1) [symmetric] that(2)
      assms(1)
    by (simp add: calls_def classesGenerated_append)
  show ?thesis using c mono inv by (auto simp: numGeneratedAndWritten_def)
qed

theorem generate_counters_witness:
  "(configuredGenerator, Map.empty) = calls CHR ''/'' fileHooks configuration Map.empty
   \<and> int (classesGenerated configuration) + int (length [widgetClass [], widgetClass []])
      \<le> 2147483647
   \<and> - 2147483648 \<le> numGenerated configuredGenerator
   \<and> numGenerated configuredGenerator + int (length [widgetClass [], widgetClass []])
      \<le> 2147483647
   \<and> - 2147483648 \<le> numGeneratedWritten configuredGenerator
   \<and> numGeneratedWritten configuredGenerator + int (length [widgetClass [], widgetClass []])
      \<le> 2147483647
   \<and> numGeneratedAndWritten configuredGenerator \<le> numGenerated configuredGenerator
   \<and> numGenerated (fst (generate CHR ''/'' fileHooks [widgetClass [], widgetClass []]
                          (configuredGenerator, Map.empty))) = 2
   \<and> numGeneratedAndWritten (fst (generate CHR ''/'' fileHooks [widgetClass [], widgetClass []]
                          (configuredGenerator, Map.empty))) = 1
   \<and> sinkReports CHR ''/'' fileHooks [widgetClass [], widgetClass []]
        (configuredGenerator, Map.empty) = [True, False]
   \<and> numGeneratedAndWritten (fst (generate CHR ''/'' fileHooks [widgetClass [], widgetClass []]
                          (configuredGenerator, Map.empty)))
      \<le> numGenerated (fst (generate CHR ''/'' fileHooks [widgetClass [], widgetClass []]
                          (configuredGenerator, Map.empty)))"
proof -
  have r: "(configuredGenerator, Map.empty) = calls CHR ''/'' fileHooks configuration Map.empty"
    "classesGenerated configuration = 0"
    by (simp_all add: configuredGenerator_def configuration_def calls_def)
  have g: "generate CHR ''/'' fileHooks [widgetClass [], widgetClass []]
             (configuredGenerator, Map.empty)
           = (fst (generate CHR ''/'' fileHooks [widgetClass [], widgetClass []]
                     (configuredGenerator, Map.empty)),
              snd (generate CHR ''/'' fileHooks [widgetClass [], widgetClass []]
                     (configuredGenerator, Map.empty)))"
    by simp
  have z: "numGenerated configuredGenerator = 0" "numGeneratedWritten configuredGenerator = 0"
    by (simp_all add: example_defs configuredGenerator_def Generator_def
        setOutputDirectory_def setup_generator_def)
  have e: "sinkReports CHR ''/'' fileHooks [widgetClass [], widgetClass []]
             (configuredGenerator, Map.empty) = [True, False]"
    "considered fileHooks [widgetClass [], widgetClass []] = [widgetClass [], widgetClass []]"
    by (simp_all add: example_defs fileHooks_def configuredGenerator_def Generator_def
        setOutputDirectory_def setup_generator_def considered_def shouldGenerate_def
        subDirectoryForClass_def subDirectoryForPackage_def startsWith_def Let_def int32_id)
  have b: "- 2147483648 \<le> numGenerated configuredGenerator"
    "numGenerated configuredGenerator + int (length [widgetClass [], widgetClass []])
      \<le> 2147483647"
    "- 2147483648 \<le> numGeneratedWritten configuredGenerator"
    "numGeneratedWritten configuredGenerator + int (length [widgetClass [], widgetClass []])
      \<le> 2147483647"
    using z by simp_all
  show ?thesis
    using generate_counters [OF g b, of configuration Map.empty] r e z
    by (simp add: numGeneratedAndWritten_def)
qed

subsection \<open>The directory of a package\<close>





end
